theory Spec2Isabelle
  imports Complex_Main
begin

section \<open>Python values used by \<^verbatim>\<open>server.py\<close>\<close>

text \<open>
  \<^verbatim>\<open>server.py\<close> is one request handler, \<^verbatim>\<open>Handler.do_POST\<close>, on top of Python's
  \<^verbatim>\<open>http.server\<close>, \<^verbatim>\<open>socketserver\<close>, \<^verbatim>\<open>json\<close> and \<^verbatim>\<open>time\<close>. The handler is
  embedded line by line. What it calls in the standard library is either written out
  (integer to text, \<^verbatim>\<open>os.path.join\<close>, \<^verbatim>\<open>json.dumps\<close> of a flat dictionary of
  strings, \<^verbatim>\<open>rfile.read\<close>, \<^verbatim>\<open>send_response\<close>, \<^verbatim>\<open>send_error\<close>, the inherited
  \<^verbatim>\<open>do_GET\<close> and \<^verbatim>\<open>do_HEAD\<close>, the method dispatch, the server loop) or taken as a
  parameter of the model (the record \<open>runtime\<close> below: \<^verbatim>\<open>int\<close> on a string, UTF-8
  decoding, \<^verbatim>\<open>json.loads\<close>, \<^verbatim>\<open>json.dump\<close>, and what the file server takes from
  \<^verbatim>\<open>urllib\<close>, \<^verbatim>\<open>mimetypes\<close> and \<^verbatim>\<open>os\<close>).

  Bytes and header strings are \<open>string\<close>: one \<open>char\<close> is one byte, respectively one
  code point below 256 (\<^verbatim>\<open>http.client\<close> decodes header lines as ISO-8859-1). Decoded
  request text and the text written to a file are of an abstract type \<open>'t\<close>; a parsed
  JSON value is of an abstract type \<open>'j\<close>.
\<close>

type_synonym bytes = string

definition PORT :: nat where
  "PORT = 8100"

definition EPISODES_DIR :: string where
  "EPISODES_DIR = ''episodes''"

text \<open>
  Exceptions carry their class and the text \<^verbatim>\<open>str(e)\<close>. \<^verbatim>\<open>except Exception\<close> catches
  the classes derived from \<^verbatim>\<open>Exception\<close>; \<^verbatim>\<open>KeyboardInterrupt\<close> and \<^verbatim>\<open>SystemExit\<close>
  derive from \<^verbatim>\<open>BaseException\<close> only.
\<close>

datatype exn_class =
  TypeError | ValueError | UnicodeDecodeError | JSONDecodeError | RecursionError
  | OSError | OverflowError | MemoryError | KeyboardInterrupt | SystemExit

fun is_Exception :: "exn_class \<Rightarrow> bool" where
  "is_Exception KeyboardInterrupt = False"
| "is_Exception SystemExit = False"
| "is_Exception _ = True"

datatype exn = Exn (cls: exn_class) (message: string)

subsection \<open>\<^verbatim>\<open>str\<close> of an integer, \<^verbatim>\<open>int\<close> of a float\<close>

definition digit_char :: "nat \<Rightarrow> char" where
  "digit_char d = ''0123456789'' ! d"

fun str_nat :: "nat \<Rightarrow> string" where
  "str_nat n = (if n < 10 then [digit_char n] else str_nat (n div 10) @ [digit_char (n mod 10)])"

declare str_nat.simps [simp del]

definition str_int :: "int \<Rightarrow> string" where
  "str_int i = (if i < 0 then CHR ''-'' # str_nat (nat (- i)) else str_nat (nat i))"

text \<open>\<^verbatim>\<open>int(x)\<close> on a float truncates towards zero. The clock reading is a real number.\<close>

definition int_of_float :: "real \<Rightarrow> int" where
  "int_of_float x = (if 0 \<le> x then \<lfloor>x\<rfloor> else \<lceil>x\<rceil>)"

subsection \<open>\<^verbatim>\<open>os.path.join\<close> (POSIX) on two components\<close>

definition os_path_join :: "string \<Rightarrow> string \<Rightarrow> string" where
  "os_path_join a b =
     (if take 1 b = ''/'' then b
      else if a = [] \<or> last a = CHR ''/'' then a @ b
      else a @ ''/'' @ b)"

subsection \<open>\<^verbatim>\<open>json.dumps\<close> of a dictionary from strings to strings\<close>

text \<open>
  With the default \<^verbatim>\<open>ensure_ascii=True\<close> every character outside \<^verbatim>\<open>' '..'~'\<close>, the
  double quote and the backslash are escaped; items are joined by \<^verbatim>\<open>", "\<close> and key
  and value by \<^verbatim>\<open>": "\<close>, in insertion order.
\<close>

definition hex_digit :: "nat \<Rightarrow> char" where
  "hex_digit d = ''0123456789abcdef'' ! d"

definition escape_char :: "char \<Rightarrow> string" where
  "escape_char c =
     (let n = (of_char c :: nat) in
      if n = 0x5C then [CHR 0x5C, CHR 0x5C]
      else if n = 0x22 then [CHR 0x5C, CHR 0x22]
      else if n = 0x08 then [CHR 0x5C, CHR ''b'']
      else if n = 0x0C then [CHR 0x5C, CHR ''f'']
      else if n = 0x0A then [CHR 0x5C, CHR ''n'']
      else if n = 0x0D then [CHR 0x5C, CHR ''r'']
      else if n = 0x09 then [CHR 0x5C, CHR ''t'']
      else if 0x20 \<le> n \<and> n \<le> 0x7E then [c]
      else [CHR 0x5C, CHR ''u'', CHR ''0'', CHR ''0'', hex_digit (n div 16), hex_digit (n mod 16)])"


definition encode_basestring_ascii :: "string \<Rightarrow> string" where
  "encode_basestring_ascii s = [CHR 0x22] @ concat (map escape_char s) @ [CHR 0x22]"

fun join_items :: "string list \<Rightarrow> string" where
  "join_items [] = []"
| "join_items [x] = x"
| "join_items (x # y # ys) = x @ '', '' @ join_items (y # ys)"

definition json_dumps :: "(string \<times> string) list \<Rightarrow> string" where
  "json_dumps d =
     ''{'' @ join_items (map (\<lambda>(k, v). encode_basestring_ascii k @ '': '' @ encode_basestring_ascii v) d)
     @ ''}''"

section \<open>Requests, responses and the world around the handler\<close>

text \<open>
  A request as \<^verbatim>\<open>BaseHTTPRequestHandler.parse_request\<close> leaves it: \<^verbatim>\<open>self.command\<close>,
  \<^verbatim>\<open>self.path\<close>, \<^verbatim>\<open>self.headers\<close> (looking a field up gives \<^verbatim>\<open>None\<close> when it is
  absent) and \<^verbatim>\<open>self.rfile\<close>, the bytes the client sends after the header until it
  closes.
\<close>

record request =
  command :: string
  path :: string
  headers :: "string \<rightharpoonup> string"
  rfile :: bytes

text \<open>What went out on the connection: status code, header fields in order, body.\<close>

record response =
  status :: nat
  sent_headers :: "(string \<times> string) list"
  wfile :: bytes

datatype outcome = Responded response | Raised exn

text \<open>
  What the environment decides for one request: the clock (\<^verbatim>\<open>time.time()\<close>), whether
  \<^verbatim>\<open>open(filepath, 'w')\<close> or the write into the opened file fails (then with the text
  left in the file), the longest buffer the process can allocate for a read, and the
  values of the two headers \<^verbatim>\<open>send_response\<close> adds.
\<close>

datatype 't io_fault = NoFault | OpenFails string | WriteFails 't string

record 't env =
  now :: real
  fault :: "'t io_fault"
  max_read :: nat
  version_string :: string
  date_time_string :: string

text \<open>
  \<^verbatim>\<open>self.rfile\<close> is a buffered reader (CPython on 64 bits). \<^verbatim>\<open>read(n)\<close> raises
  \<^verbatim>\<open>ValueError\<close> for a length below \<open>-1\<close>, and \<^verbatim>\<open>OverflowError\<close> for a length that
  is no index (from \<open>2^63\<close>) or exceeds the longest byte string (from \<open>2^63 - 33\<close>).
  Otherwise it allocates a buffer of \<open>n\<close> bytes, with a \<^verbatim>\<open>MemoryError\<close> (whose text is
  empty) when the process cannot, and gives at most \<open>n\<close> bytes. \<^verbatim>\<open>read(-1)\<close> gives
  everything up to the end.
\<close>

definition rfile_read :: "'t env \<Rightarrow> bytes \<Rightarrow> int \<Rightarrow> exn + bytes" where
  "rfile_read env stream n =
     (if n < - 1 then Inl (Exn ValueError ''read length must be non-negative or -1'')
      else if n = - 1 then
        (if length stream \<le> max_read env then Inr stream else Inl (Exn MemoryError []))
      else if 2 ^ 63 \<le> n then
        Inl (Exn OverflowError
               (''cannot fit '' @ [CHR 0x27] @ ''int'' @ [CHR 0x27]
                @ '' into an index-sized integer''))
      else if 2 ^ 63 - 33 \<le> n then Inl (Exn OverflowError ''byte string is too large'')
      else if int (max_read env) < n then Inl (Exn MemoryError [])
      else Inr (take (nat n) stream))"

text \<open>
  The state outside the process: the files (what \<^verbatim>\<open>open\<close> finds) and the directories
  (where \<^verbatim>\<open>os.path.isdir\<close> holds), by their names relative to the working directory,
  and the lines printed.
\<close>

record 't world =
  files :: "string \<rightharpoonup> 't"
  dirs :: "string set"
  stdout :: "string list"

text \<open>
  The library functions the handlers call and the model does not write out. Those of
  \<^verbatim>\<open>do_POST\<close> return \<open>Inl\<close> of the exception they raise. Of the others,
  \<open>error_page code message\<close> is the HTML page of \<^verbatim>\<open>send_error\<close> and \<open>py_repr\<close> is
  \<^verbatim>\<open>repr\<close> of a string; \<open>translate_path\<close> is
  \<^verbatim>\<open>SimpleHTTPRequestHandler.translate_path\<close>, giving the local name as \<open>files\<close> and
  \<open>dirs\<close> have it; \<open>urlsplit_path\<close> is the path component of \<^verbatim>\<open>urllib.parse.urlsplit\<close>
  and \<open>redirect_location\<close> the URL with \<^verbatim>\<open>/\<close> added to that component;
  \<open>directory_listing w path request_path\<close> is the encoded page of \<^verbatim>\<open>list_directory\<close>,
  \<open>None\<close> when \<^verbatim>\<open>os.listdir\<close> fails; \<open>file_bytes\<close> gives the bytes of a file holding
  a text; \<open>last_modified\<close> is \<^verbatim>\<open>date_time_string\<close> of a file's modification time;
  \<open>not_modified_since w path v\<close> holds when \<open>v\<close> parses as a date in UTC not before that
  time.
\<close>

record ('t, 'j) runtime =
  int_of_str :: "string \<Rightarrow> exn + int"
  decode_utf8 :: "bytes \<Rightarrow> exn + 't"
  json_loads :: "'t \<Rightarrow> exn + 'j"
  json_dump_indent2 :: "'j \<Rightarrow> 't"
  error_page :: "nat \<Rightarrow> string option \<Rightarrow> bytes"
  py_repr :: "string \<Rightarrow> string"
  translate_path :: "string \<Rightarrow> string"
  urlsplit_path :: "string \<Rightarrow> string"
  redirect_location :: "string \<Rightarrow> string"
  directory_listing :: "'t world \<Rightarrow> string \<Rightarrow> string \<Rightarrow> bytes option"
  filesystem_encoding :: string
  guess_type :: "string \<Rightarrow> string"
  file_bytes :: "'t \<Rightarrow> bytes"
  last_modified :: "'t world \<Rightarrow> string \<Rightarrow> string"
  not_modified_since :: "'t world \<Rightarrow> string \<Rightarrow> string \<Rightarrow> bool"

text \<open>\<^verbatim>\<open>int(v)\<close> for \<open>v\<close> a header lookup: \<^verbatim>\<open>None\<close> is a \<^verbatim>\<open>TypeError\<close>.\<close>

definition py_int :: "('t, 'j) runtime \<Rightarrow> string option \<Rightarrow> exn + int" where
  "py_int rt v =
     (case v of
        None \<Rightarrow> Inl (Exn TypeError
          (''int() argument must be a string, a bytes-like object or a real number, not ''
           @ [CHR 0x27] @ ''NoneType'' @ [CHR 0x27]))
      | Some s \<Rightarrow> int_of_str rt s)"

definition print_line :: "string \<Rightarrow> 't world \<Rightarrow> 't world" where
  "print_line l w = w\<lparr>stdout := stdout w @ [l]\<rparr>"

subsection \<open>\<^verbatim>\<open>send_response\<close>, \<^verbatim>\<open>send_header\<close>, \<^verbatim>\<open>wfile.write\<close>, \<^verbatim>\<open>send_error\<close>\<close>

definition send_response :: "'t env \<Rightarrow> nat \<Rightarrow> response" where
  "send_response env code =
     \<lparr>status = code,
      sent_headers = [(''Server'', version_string env), (''Date'', date_time_string env)],
      wfile = []\<rparr>"

definition send_header :: "string \<Rightarrow> string \<Rightarrow> response \<Rightarrow> response" where
  "send_header keyword v r = r\<lparr>sent_headers := sent_headers r @ [(keyword, v)]\<rparr>"

definition wfile_write :: "bytes \<Rightarrow> response \<Rightarrow> response" where
  "wfile_write b r = r\<lparr>wfile := wfile r @ b\<rparr>"

definition send_error ::
  "('t, 'j) runtime \<Rightarrow> 't env \<Rightarrow> request \<Rightarrow> nat \<Rightarrow> string option \<Rightarrow> response" where
  "send_error rt env req code msg =
     (let r = send_header ''Connection'' ''close'' (send_response env code);
          body = error_page rt code msg
      in if 200 \<le> code \<and> code \<noteq> 204 \<and> code \<noteq> 205 \<and> code \<noteq> 304
         then let r' = send_header ''Content-Length'' (str_nat (length body))
                         (send_header ''Content-Type'' ''text/html;charset=utf-8'' r)
              in if command req \<noteq> ''HEAD'' \<and> body \<noteq> [] then wfile_write body r' else r'
         else r)"

section \<open>\<^verbatim>\<open>Handler.do_POST\<close>\<close>

text \<open>Line 22: \<^verbatim>\<open>f"episode_{timestamp}.json"\<close>.\<close>

definition episode_filename :: "int \<Rightarrow> string" where
  "episode_filename timestamp = ''episode_'' @ str_int timestamp @ ''.json''"

text \<open>Lines 26-27: \<^verbatim>\<open>with open(filepath, 'w') as f: json.dump(data, f, indent=2)\<close>.\<close>

definition write_json ::
  "('t, 'j) runtime \<Rightarrow> 't env \<Rightarrow> string \<Rightarrow> 'j \<Rightarrow> 't world \<Rightarrow> (exn + unit) \<times> 't world" where
  "write_json rt env filepath data w =
     (case fault env of
        OpenFails m \<Rightarrow> (Inl (Exn OSError m), w)
      | WriteFails partial m \<Rightarrow> (Inl (Exn OSError m), w\<lparr>files := (files w)(filepath \<mapsto> partial)\<rparr>)
      | NoFault \<Rightarrow> (Inr (), w\<lparr>files := (files w)(filepath \<mapsto> json_dump_indent2 rt data)\<rparr>))"

text \<open>
  Lines 18-29, the body of the \<^verbatim>\<open>try\<close> up to the \<^verbatim>\<open>print\<close>: the result is the
  exception raised or the file name, with the world as it is at that point.
\<close>

definition save_episode ::
  "('t, 'j) runtime \<Rightarrow> 't env \<Rightarrow> bytes \<Rightarrow> 't world \<Rightarrow> (exn + string) \<times> 't world" where
  "save_episode rt env post_data w =
     (case decode_utf8 rt post_data of
        Inl e \<Rightarrow> (Inl e, w)
      | Inr text \<Rightarrow>
          (case json_loads rt text of
             Inl e \<Rightarrow> (Inl e, w)
           | Inr data \<Rightarrow>
               (let timestamp = int_of_float (now env);
                    filename = episode_filename timestamp;
                    filepath = os_path_join EPISODES_DIR filename
                in case write_json rt env filepath data w of
                     (Inl e, w') \<Rightarrow> (Inl e, w')
                   | (Inr _, w') \<Rightarrow>
                       (Inr filename, print_line (''Saved episode to '' @ filepath) w'))))"

text \<open>
  Lines 12-42. The conversion of the header and the read are outside the \<^verbatim>\<open>try\<close>:
  what they raise leaves \<^verbatim>\<open>do_POST\<close>. \<^verbatim>\<open>except Exception\<close> lets an exception
  that is not an \<^verbatim>\<open>Exception\<close> pass. Writing to the connection and printing to
  the console are taken to succeed: the client reads what is sent.
\<close>

definition do_POST ::
  "('t, 'j) runtime \<Rightarrow> 't env \<Rightarrow> request \<Rightarrow> 't world \<Rightarrow> outcome \<times> 't world" where
  "do_POST rt env req w =
     (if path req = ''/save'' then
        (case py_int rt (headers req ''Content-Length'') of
           Inl e \<Rightarrow> (Raised e, w)
         | Inr content_length \<Rightarrow>
             (case rfile_read env (rfile req) content_length of
                Inl e \<Rightarrow> (Raised e, w)
              | Inr post_data \<Rightarrow>
                  (case save_episode rt env post_data w of
                     (Inr filename, w') \<Rightarrow>
                       (Responded
                          (wfile_write (json_dumps [(''status'', ''success''), (''file'', filename)])
                            (send_header ''Content-type'' ''application/json''
                              (send_response env 200))), w')
                   | (Inl e, w') \<Rightarrow>
                       if is_Exception (cls e) then
                         (Responded
                            (wfile_write
                               (json_dumps [(''status'', ''error''), (''message'', message e)])
                               (send_response env 500)),
                          print_line (''Error saving episode: '' @ message e) w')
                       else (Raised e, w'))))
      else (Responded (send_error rt env req 404 None), w))"

section \<open>The inherited file server\<close>

text \<open>
  \<^verbatim>\<open>SimpleHTTPRequestHandler.send_head\<close> gives the head of the response to a GET or
  HEAD and, if there is one, the bytes of the file to copy after it. A directory asked
  for without the final \<^verbatim>\<open>/\<close> is redirected, one with an index page serves that page,
  any other is listed. A name with a final \<^verbatim>\<open>/\<close> that is no directory, and a name
  \<^verbatim>\<open>open\<close> does not find, are answered 404. A file is answered 304 when the request
  has \<^verbatim>\<open>If-Modified-Since\<close> with a date not before the file's, and no
  \<^verbatim>\<open>If-None-Match\<close>.
\<close>

definition ends_with_slash :: "string \<Rightarrow> bool" where
  "ends_with_slash p \<longleftrightarrow> p \<noteq> [] \<and> last p = CHR ''/''"

definition send_file_head ::
  "('t, 'j) runtime \<Rightarrow> 't env \<Rightarrow> request \<Rightarrow> 't world \<Rightarrow> string
     \<Rightarrow> response \<times> bytes option" where
  "send_file_head rt env req w p =
     (if ends_with_slash p then (send_error rt env req 404 (Some ''File not found''), None)
      else
        (case files w p of
           None \<Rightarrow> (send_error rt env req 404 (Some ''File not found''), None)
         | Some content \<Rightarrow>
             if (case (headers req ''If-Modified-Since'', headers req ''If-None-Match'') of
                   (Some ims, None) \<Rightarrow> not_modified_since rt w p ims
                 | _ \<Rightarrow> False)
             then (send_response env 304, None)
             else
               (send_header ''Last-Modified'' (last_modified rt w p)
                  (send_header ''Content-Length'' (str_nat (length (file_bytes rt content)))
                    (send_header ''Content-type'' (guess_type rt p) (send_response env 200))),
                Some (file_bytes rt content))))"

definition list_directory ::
  "('t, 'j) runtime \<Rightarrow> 't env \<Rightarrow> request \<Rightarrow> 't world \<Rightarrow> string
     \<Rightarrow> response \<times> bytes option" where
  "list_directory rt env req w p =
     (case directory_listing rt w p (path req) of
        None \<Rightarrow> (send_error rt env req 404 (Some ''No permission to list directory''), None)
      | Some encoded \<Rightarrow>
          (send_header ''Content-Length'' (str_nat (length encoded))
             (send_header ''Content-type'' (''text/html; charset='' @ filesystem_encoding rt)
               (send_response env 200)),
           Some encoded))"

definition send_head ::
  "('t, 'j) runtime \<Rightarrow> 't env \<Rightarrow> request \<Rightarrow> 't world \<Rightarrow> response \<times> bytes option" where
  "send_head rt env req w =
     (let p = translate_path rt (path req) in
      if p \<in> dirs w then
        (if \<not> ends_with_slash (urlsplit_path rt (path req)) then
           (send_header ''Content-Length'' ''0''
              (send_header ''Location'' (redirect_location rt (path req))
                (send_response env 301)),
            None)
         else if files w (os_path_join p ''index.html'') \<noteq> None then
           send_file_head rt env req w (os_path_join p ''index.html'')
         else if files w (os_path_join p ''index.htm'') \<noteq> None then
           send_file_head rt env req w (os_path_join p ''index.htm'')
         else list_directory rt env req w p)
      else send_file_head rt env req w p)"

text \<open>\<^verbatim>\<open>do_GET\<close> copies the file after the head, \<^verbatim>\<open>do_HEAD\<close> sends the head only.\<close>

definition do_GET ::
  "('t, 'j) runtime \<Rightarrow> 't env \<Rightarrow> request \<Rightarrow> 't world \<Rightarrow> outcome \<times> 't world" where
  "do_GET rt env req w =
     (case send_head rt env req w of
        (r, None) \<Rightarrow> (Responded r, w)
      | (r, Some f) \<Rightarrow> (Responded (wfile_write f r), w))"

definition do_HEAD ::
  "('t, 'j) runtime \<Rightarrow> 't env \<Rightarrow> request \<Rightarrow> 't world \<Rightarrow> outcome \<times> 't world" where
  "do_HEAD rt env req w = (Responded (fst (send_head rt env req w)), w)"

section \<open>Method dispatch and the server loop\<close>

text \<open>
  \<^verbatim>\<open>BaseHTTPRequestHandler.handle_one_request\<close> calls the method \<^verbatim>\<open>do_<command>\<close> and
  answers 501 when the class has none. \<^verbatim>\<open>Handler\<close> has \<^verbatim>\<open>do_POST\<close> and, from
  \<^verbatim>\<open>SimpleHTTPRequestHandler\<close>, \<^verbatim>\<open>do_GET\<close> and \<^verbatim>\<open>do_HEAD\<close>.
\<close>

definition handle_one_request ::
  "('t, 'j) runtime \<Rightarrow> 't env \<Rightarrow> request \<Rightarrow> 't world \<Rightarrow> outcome \<times> 't world" where
  "handle_one_request rt env req w =
     (if command req = ''POST'' then do_POST rt env req w
      else if command req = ''GET'' then do_GET rt env req w
      else if command req = ''HEAD'' then do_HEAD rt env req w
      else (Responded
              (send_error rt env req 501
                 (Some (''Unsupported method ('' @ py_repr rt (command req) @ '')''))), w))"

text \<open>
  \<^verbatim>\<open>httpd.serve_forever()\<close> over the requests that arrive, one after the other
  (\<^verbatim>\<open>TCPServer\<close> handles them in the accepting thread).
  \<^verbatim>\<open>_handle_request_noblock\<close> catches every \<^verbatim>\<open>Exception\<close> a handler raises, reports
  it and goes on; any other exception is raised again and ends the loop.
\<close>

datatype server_state = Serving | Terminated exn

fun serve_forever ::
  "('t, 'j) runtime \<Rightarrow> ('t env \<times> request) list \<Rightarrow> 't world
     \<Rightarrow> outcome list \<times> 't world \<times> server_state" where
  "serve_forever rt [] w = ([], w, Serving)"
| "serve_forever rt ((env, req) # rest) w =
     (case handle_one_request rt env req w of
        (Responded r, w') \<Rightarrow>
          (case serve_forever rt rest w' of (outs, w'', s) \<Rightarrow> (Responded r # outs, w'', s))
      | (Raised e, w') \<Rightarrow>
          if is_Exception (cls e) then
            (case serve_forever rt rest w' of (outs, w'', s) \<Rightarrow> (Raised e # outs, w'', s))
          else ([Raised e], w', Terminated e))"


text \<open>The status code that went out, if a response did.\<close>

fun status_of :: "outcome \<Rightarrow> nat option" where
  "status_of (Responded r) = Some (status r)"
| "status_of (Raised e) = None"

text \<open>
  The runtime raises errors only: no library call of the handler raises an exception
  outside \<^verbatim>\<open>Exception\<close>.
\<close>

definition raises_only_errors :: "('t, 'j) runtime \<Rightarrow> bool" where
  "raises_only_errors rt \<longleftrightarrow>
     (\<forall>s e. int_of_str rt s = Inl e \<longrightarrow> is_Exception (cls e))
     \<and> (\<forall>b e. decode_utf8 rt b = Inl e \<longrightarrow> is_Exception (cls e))
     \<and> (\<forall>t e. json_loads rt t = Inl e \<longrightarrow> is_Exception (cls e))"

section \<open>A sample runtime\<close>

text \<open>
  A small runtime on which the model runs: text is ASCII, and the JSON documents are the
  natural numbers in decimal. On these inputs \<^verbatim>\<open>int\<close>, \<^verbatim>\<open>bytes.decode\<close>,
  \<^verbatim>\<open>json.loads\<close> and \<^verbatim>\<open>json.dump\<close> of CPython give the same values; everything
  else the sample rejects. A request path of the sample translates by dropping its
  leading \<^verbatim>\<open>/\<close>, as a path of plain components without query does; files are served as
  \<^verbatim>\<open>application/json\<close>, the type of \<^verbatim>\<open>.json\<close>.
\<close>

definition is_digit :: "char \<Rightarrow> bool" where
  "is_digit c = (c \<in> set ''0123456789'')"

definition nat_of_digits :: "string \<Rightarrow> nat" where
  "nat_of_digits s = foldl (\<lambda>n c. 10 * n + (of_char c - 48)) 0 s"

definition sample_int_of_str :: "string \<Rightarrow> exn + int" where
  "sample_int_of_str s =
     (if s \<noteq> [] \<and> list_all is_digit s then Inr (int (nat_of_digits s))
      else Inl (Exn ValueError
             (''invalid literal for int() with base 10: '' @ [CHR 0x27] @ s @ [CHR 0x27])))"

definition sample_decode_utf8 :: "bytes \<Rightarrow> exn + string" where
  "sample_decode_utf8 b =
     (if list_all (\<lambda>c. (of_char c :: nat) < 128) b then Inr b
      else Inl (Exn UnicodeDecodeError ''utf-8 codec cannot decode the body''))"

definition sample_json_loads :: "string \<Rightarrow> exn + nat" where
  "sample_json_loads t =
     (if t \<noteq> [] \<and> list_all is_digit t \<and> (length t = 1 \<or> hd t \<noteq> CHR ''0'')
      then Inr (nat_of_digits t)
      else Inl (Exn JSONDecodeError ''Expecting value: line 1 column 1 (char 0)''))"

definition sample_rt :: "(string, nat) runtime" where
  "sample_rt =
     \<lparr>int_of_str = sample_int_of_str,
      decode_utf8 = sample_decode_utf8,
      json_loads = sample_json_loads,
      json_dump_indent2 = str_nat,
      error_page = (\<lambda>code msg. ''Error response '' @ str_nat code),
      py_repr = (\<lambda>s. [CHR 0x27] @ s @ [CHR 0x27]),
      translate_path = dropWhile (\<lambda>c. c = CHR ''/''),
      urlsplit_path = (\<lambda>p. p),
      redirect_location = (\<lambda>p. p @ ''/''),
      directory_listing = (\<lambda>w p request_path. Some (''Directory listing for '' @ request_path)),
      filesystem_encoding = ''utf-8'',
      guess_type = (\<lambda>p. ''application/json''),
      file_bytes = (\<lambda>t. t),
      last_modified = (\<lambda>w p. ''Tue, 14 Nov 2023 22:13:20 GMT''),
      not_modified_since = (\<lambda>w p v. False)\<rparr>"

definition sample_env :: "real \<Rightarrow> string io_fault \<Rightarrow> string env" where
  "sample_env t f =
     \<lparr>now = t, fault = f, max_read = 65536,
      version_string = ''SimpleHTTP/0.6 Python/3.11.10'',
      date_time_string = ''Tue, 14 Nov 2023 22:13:20 GMT''\<rparr>"

definition sample_request :: "string \<Rightarrow> string \<Rightarrow> bytes \<Rightarrow> request" where
  "sample_request cmd p body =
     \<lparr>command = cmd, path = p,
      headers = [''Content-Length'' \<mapsto> str_nat (length body)],
      rfile = body\<rparr>"

text \<open>The working directory before the program starts: no file, no subdirectory.\<close>

definition empty_world :: "string world" where
  "empty_world = \<lparr>files = Map.empty, dirs = {[]}, stdout = []\<rparr>"

lemmas sample_defs =
  sample_rt_def sample_env_def sample_request_def empty_world_def sample_int_of_str_def
  sample_decode_utf8_def sample_json_loads_def is_digit_def nat_of_digits_def

lemmas handler_defs =
  do_POST_def save_episode_def write_json_def py_int_def rfile_read_def print_line_def
  send_response_def send_header_def wfile_write_def

section \<open>Decimal text\<close>

lemma digit_char_cases:
  assumes "d < 10"
  shows "digit_char d \<in> set ''0123456789''"
proof -
  from assms have "d \<in> {0, 1, 2, 3, 4, 5, 6, 7, 8, 9}" by auto
  then show ?thesis by (auto simp: digit_char_def)
qed

lemma set_str_nat: "set (str_nat n) \<subseteq> set ''0123456789''"
proof (induction n rule: str_nat.induct)
  case (1 n)
  show ?case
  proof (cases "n < 10")
    case True
    then show ?thesis
      using digit_char_cases [of n] by (subst str_nat.simps) simp
  next
    case False
    have "n mod 10 < 10" by simp
    from digit_char_cases [OF this] "1.IH" [OF False] show ?thesis
      by (subst str_nat.simps) (simp add: False)
  qed
qed

lemma str_nat_numerals:
  "str_nat 1 = ''1''" "str_nat 2 = ''2''" "str_nat 42 = ''42''" "str_nat 7 = ''7''"
  by (simp_all add: str_nat.simps digit_char_def)

lemma str_int_sample: "str_int 1700000000 = ''1700000000''"
  by (simp add: str_int_def str_nat.simps digit_char_def)

lemma int_of_float_sample: "int_of_float 1700000000.7 = 1700000000"
  by (simp add: int_of_float_def)






lemma episode_filepath:
  "os_path_join EPISODES_DIR (episode_filename t) = ''episodes/'' @ episode_filename t"
  by (simp add: os_path_join_def EPISODES_DIR_def episode_filename_def)

section \<open>What \<^verbatim>\<open>do_POST\<close> does, case by case\<close>

lemma do_POST_saved:
  assumes "path req = ''/save''"
    and "py_int rt (headers req ''Content-Length'') = Inr n"
    and "rfile_read env (rfile req) n = Inr post_data"
    and "decode_utf8 rt post_data = Inr text"
    and "json_loads rt text = Inr data"
    and "fault env = NoFault"
  shows "do_POST rt env req w =
    (Responded
       \<lparr>status = 200,
        sent_headers = [(''Server'', version_string env), (''Date'', date_time_string env),
                        (''Content-type'', ''application/json'')],
        wfile = json_dumps [(''status'', ''success''),
                            (''file'', episode_filename (int_of_float (now env)))]\<rparr>,
     w\<lparr>files := (files w)(''episodes/'' @ episode_filename (int_of_float (now env))
                     \<mapsto> json_dump_indent2 rt data),
       stdout := stdout w @ [''Saved episode to '' @ ''episodes/''
                     @ episode_filename (int_of_float (now env))]\<rparr>)"
  using assms
  by (simp add: do_POST_def save_episode_def write_json_def print_line_def send_response_def
      send_header_def wfile_write_def episode_filepath Let_def)


section \<open>The sample runtime on two requests\<close>

lemma sample_request_fields:
  "command (sample_request cmd p body) = cmd"
  "path (sample_request cmd p body) = p"
  "rfile (sample_request cmd p body) = body"
  by (simp_all add: sample_request_def)

lemma sample_env_fields:
  "now (sample_env t f) = t"
  "fault (sample_env t f) = f"
  "version_string (sample_env t f) = ''SimpleHTTP/0.6 Python/3.11.10''"
  "date_time_string (sample_env t f) = ''Tue, 14 Nov 2023 22:13:20 GMT''"
  by (simp_all add: sample_env_def)

lemma sample_content_length:
  "py_int sample_rt (headers (sample_request cmd p ''42'') ''Content-Length'') = Inr 2"
  "py_int sample_rt (headers (sample_request cmd p ''7'') ''Content-Length'') = Inr 1"
proof -
  have "str_nat (Suc (Suc 0)) = ''2''" "str_nat (Suc 0) = ''1''"
    by (simp_all add: str_nat.simps digit_char_def)
  then show
    "py_int sample_rt (headers (sample_request cmd p ''42'') ''Content-Length'') = Inr 2"
    "py_int sample_rt (headers (sample_request cmd p ''7'') ''Content-Length'') = Inr 1"
    by (simp_all add: sample_defs py_int_def)
qed

lemma sample_read:
  "rfile_read (sample_env t f) ''42'' 2 = Inr ''42''"
  "rfile_read (sample_env t f) ''7'' 1 = Inr ''7''"
  "rfile_read (sample_env t f) ''x'' 1 = Inr ''x''"
  by (simp_all add: rfile_read_def sample_env_def)

lemma sample_parse:
  "decode_utf8 sample_rt ''42'' = Inr ''42''" "json_loads sample_rt ''42'' = Inr 42"
  "decode_utf8 sample_rt ''7'' = Inr ''7''" "json_loads sample_rt ''7'' = Inr 7"
  by (simp_all add: sample_defs)

lemma sample_dump:
  "json_dump_indent2 sample_rt 42 = ''42''" "json_dump_indent2 sample_rt 7 = ''7''"
  by (simp_all add: sample_rt_def str_nat_numerals)

lemma sample_filename: "episode_filename 1700000000 = ''episode_1700000000.json''"
  by (simp add: episode_filename_def str_int_sample)

lemma sample_filepath:
  "os_path_join EPISODES_DIR ''episode_1700000000.json'' = ''episodes/episode_1700000000.json''"
  by (simp add: os_path_join_def EPISODES_DIR_def)

lemmas sample_run =
  sample_env_fields int_of_float_sample sample_filename sample_dump sample_filepath

section \<open>The success response\<close>



section \<open>Failures inside the \<^verbatim>\<open>try\<close>\<close>

lemma save_episode_decode_error:
  assumes "decode_utf8 rt post_data = Inl e"
  shows "save_episode rt env post_data w = (Inl e, w)"
  using assms by (simp add: save_episode_def)

lemma save_episode_json_error:
  assumes "decode_utf8 rt post_data = Inr text" and "json_loads rt text = Inl e"
  shows "save_episode rt env post_data w = (Inl e, w)"
  using assms by (simp add: save_episode_def)

lemma save_episode_open_error:
  assumes "decode_utf8 rt post_data = Inr text" and "json_loads rt text = Inr data"
    and "fault env = OpenFails m"
  shows "save_episode rt env post_data w = (Inl (Exn OSError m), w)"
  using assms by (simp add: save_episode_def write_json_def Let_def)

lemma save_episode_write_error:
  assumes "decode_utf8 rt post_data = Inr text" and "json_loads rt text = Inr data"
    and "fault env = WriteFails partial m"
  shows "save_episode rt env post_data w =
    (Inl (Exn OSError m),
     w\<lparr>files := (files w)(''episodes/'' @ episode_filename (int_of_float (now env)) \<mapsto> partial)\<rparr>)"
  using assms by (simp add: save_episode_def write_json_def Let_def episode_filepath)

lemma do_POST_failed:
  assumes "path req = ''/save''"
    and "py_int rt (headers req ''Content-Length'') = Inr n"
    and "rfile_read env (rfile req) n = Inr post_data"
    and "save_episode rt env post_data w = (Inl e, w1)"
    and "is_Exception (cls e)"
  shows "do_POST rt env req w =
    (Responded
       \<lparr>status = 500,
        sent_headers = [(''Server'', version_string env), (''Date'', date_time_string env)],
        wfile = json_dumps [(''status'', ''error''), (''message'', message e)]\<rparr>,
     w1\<lparr>stdout := stdout w1 @ [''Error saving episode: '' @ message e]\<rparr>)"
  using assms
  by (simp add: do_POST_def send_response_def wfile_write_def print_line_def)

section \<open>The stored file\<close>

text \<open>
  C5. After a successful POST to \<^verbatim>\<open>/save\<close> the files are those of before with one
  file written, \<^verbatim>\<open>episodes/episode_<t>.json\<close>, where \<open>t\<close> is \<^verbatim>\<open>int(time.time())\<close>:
  the clock reading of the request cut to whole seconds.
\<close>

theorem created_file_name:
  assumes "path req = ''/save''"
    and "py_int rt (headers req ''Content-Length'') = Inr n"
    and "rfile_read env (rfile req) n = Inr post_data"
    and "decode_utf8 rt post_data = Inr text"
    and "json_loads rt text = Inr data"
    and "fault env = NoFault"
  shows "files (snd (do_POST rt env req w)) =
      (files w)(''episodes/episode_'' @ str_int (int_of_float (now env)) @ ''.json''
                  \<mapsto> json_dump_indent2 rt data)
    \<and> (0 \<le> now env \<longrightarrow> int_of_float (now env) = \<lfloor>now env\<rfloor>)"
  unfolding do_POST_saved [OF assms]
  by (simp add: episode_filename_def int_of_float_def)

theorem created_file_name_witness:
  "path (sample_request ''POST'' ''/save'' ''42'') = ''/save''
   \<and> py_int sample_rt (headers (sample_request ''POST'' ''/save'' ''42'') ''Content-Length'') = Inr 2
   \<and> rfile_read (sample_env 1700000000.7 NoFault) (rfile (sample_request ''POST'' ''/save'' ''42'')) 2 = Inr ''42''
   \<and> decode_utf8 sample_rt ''42'' = Inr ''42''
   \<and> json_loads sample_rt ''42'' = Inr 42
   \<and> fault (sample_env 1700000000.7 NoFault) = NoFault
   \<and> (0::real) \<le> 1700000000.7
   \<and> files (snd (do_POST sample_rt (sample_env 1700000000.7 NoFault)
                    (sample_request ''POST'' ''/save'' ''42'') empty_world)) =
       [''episodes/episode_1700000000.json'' \<mapsto> ''42'']
   \<and> int_of_float 1700000000.7 = \<lfloor>1700000000.7 :: real\<rfloor>"
proof -
  let ?req = "sample_request ''POST'' ''/save'' ''42''"
  let ?env = "sample_env 1700000000.7 NoFault"
  have h1: "path ?req = ''/save''"
    by (simp add: sample_request_fields)
  note h2 = sample_content_length(1) [of "''POST''" "''/save''"]
  have h3: "rfile_read ?env (rfile ?req) 2 = Inr ''42''"
    by (simp add: sample_request_fields sample_read)
  have h6: "fault ?env = NoFault"
    by (simp add: sample_env_fields)
  have h7: "(0::real) \<le> 1700000000.7"
    by simp
  have c: "files (snd (do_POST sample_rt ?env ?req empty_world)) =
       [''episodes/episode_1700000000.json'' \<mapsto> ''42'']
     \<and> int_of_float 1700000000.7 = \<lfloor>1700000000.7 :: real\<rfloor>"
    using created_file_name [OF h1 h2 h3 sample_parse(1) sample_parse(2) h6, of empty_world]
    by (simp add: sample_run str_int_sample empty_world_def)
  from h1 h2 h3 sample_parse(1) sample_parse(2) h6 h7 c show ?thesis
    by (simp only: simp_thms)
qed

text \<open>
  Reading an episode back. When a parsed payload \<open>P\<close> is answered with 200, the file
  write met no fault, the body of the answer names the file, and the file of that name
  under \<^verbatim>\<open>episodes\<close> holds exactly the text \<^verbatim>\<open>json.dump(P, f, indent=2)\<close> wrote.
  Whether \<^verbatim>\<open>json.loads\<close> gives \<open>P\<close> back from that text is a law of Python's
  \<^verbatim>\<open>json\<close> module and of its conversions between floats and text, which this
  model takes as parameters.
\<close>

lemma stored_file_is_dump:
  assumes "path req = ''/save''"
    and "py_int rt (headers req ''Content-Length'') = Inr n"
    and "rfile_read env (rfile req) n = Inr post_data"
    and "decode_utf8 rt post_data = Inr text"
    and "json_loads rt text = Inr P"
    and "status_of (fst (do_POST rt env req w)) = Some 200"
  shows "fault env = NoFault"
    and "\<exists>r. fst (do_POST rt env req w) = Responded r
           \<and> wfile r = json_dumps [(''status'', ''success''),
                                    (''file'', episode_filename (int_of_float (now env)))]"
    and "files (snd (do_POST rt env req w))
           (os_path_join EPISODES_DIR (episode_filename (int_of_float (now env))))
         = Some (json_dump_indent2 rt P)"
proof -
  show f: "fault env = NoFault"
  proof (cases "fault env")
    case (OpenFails m)
    have s: "save_episode rt env post_data w = (Inl (Exn OSError m), w)"
      using assms(4,5) OpenFails by (rule save_episode_open_error)
    from do_POST_failed [OF assms(1-3) s] assms(6) show ?thesis
      by simp
  next
    case (WriteFails partial m)
    note s = save_episode_write_error [OF assms(4,5) WriteFails, of w]
    from do_POST_failed [OF assms(1-3) s] assms(6) show ?thesis
      by simp
  qed
  note run = do_POST_saved [OF assms(1-5) f, of w]
  show "\<exists>r. fst (do_POST rt env req w) = Responded r
           \<and> wfile r = json_dumps [(''status'', ''success''),
                                    (''file'', episode_filename (int_of_float (now env)))]"
    unfolding run by simp
  show "files (snd (do_POST rt env req w))
           (os_path_join EPISODES_DIR (episode_filename (int_of_float (now env))))
         = Some (json_dump_indent2 rt P)"
    unfolding run episode_filepath by simp
qed

section \<open>The error response\<close>






section \<open>The shapes of a response of \<^verbatim>\<open>do_POST\<close>\<close>







section \<open>A missing or malformed \<^verbatim>\<open>Content-Length\<close>\<close>

text \<open>
  C9. A POST to \<^verbatim>\<open>/save\<close> without a \<^verbatim>\<open>Content-Length\<close> header, or with a value
  on which \<^verbatim>\<open>int\<close> raises, makes the conversion in line 14 raise outside the
  \<^verbatim>\<open>try\<close> (a \<^verbatim>\<open>TypeError\<close> when the header is absent): \<^verbatim>\<open>do_POST\<close> ends with that
  exception, the world is as before and no response goes out, neither from \<^verbatim>\<open>do_POST\<close>
  nor from the dispatch that called it.
\<close>

theorem bad_content_length_no_response:
  assumes "path req = ''/save''"
    and "headers req ''Content-Length'' = None
         \<or> (\<exists>s e. headers req ''Content-Length'' = Some s \<and> int_of_str rt s = Inl e)"
  shows "(\<exists>e. do_POST rt env req w = (Raised e, w)
            \<and> (headers req ''Content-Length'' = None \<longrightarrow> cls e = TypeError)
            \<and> (\<forall>s. headers req ''Content-Length'' = Some s \<longrightarrow> int_of_str rt s = Inl e))
    \<and> status_of (fst (do_POST rt env req w)) = None
    \<and> (command req = ''POST'' \<longrightarrow> status_of (fst (handle_one_request rt env req w)) = None)"
  using assms
  by (auto simp: do_POST_def py_int_def handle_one_request_def)

theorem bad_content_length_no_response_witness:
  "path \<lparr>command = ''POST'', path = ''/save'', headers = Map.empty, rfile = ''42''\<rparr> = ''/save''
   \<and> headers \<lparr>command = ''POST'', path = ''/save'', headers = Map.empty, rfile = ''42''\<rparr>
        ''Content-Length'' = None
   \<and> status_of (fst (do_POST sample_rt (sample_env 1700000000.7 NoFault)
        \<lparr>command = ''POST'', path = ''/save'', headers = Map.empty, rfile = ''42''\<rparr>
        empty_world)) = None
   \<and> path \<lparr>command = ''POST'', path = ''/save'', headers = [''Content-Length'' \<mapsto> ''abc''],
            rfile = ''42''\<rparr> = ''/save''
   \<and> headers \<lparr>command = ''POST'', path = ''/save'', headers = [''Content-Length'' \<mapsto> ''abc''],
            rfile = ''42''\<rparr> ''Content-Length'' = Some ''abc''
   \<and> int_of_str sample_rt ''abc'' = Inl (Exn ValueError
         (''invalid literal for int() with base 10: '' @ [CHR 0x27] @ ''abc'' @ [CHR 0x27]))
   \<and> status_of (fst (handle_one_request sample_rt (sample_env 1700000000.7 NoFault)
        \<lparr>command = ''POST'', path = ''/save'', headers = [''Content-Length'' \<mapsto> ''abc''],
            rfile = ''42''\<rparr> empty_world)) = None"
proof -
  let ?env = "sample_env 1700000000.7 NoFault"
  let ?req1 = "\<lparr>command = ''POST'', path = ''/save'', headers = Map.empty, rfile = ''42''\<rparr>"
  let ?req2 = "\<lparr>command = ''POST'', path = ''/save'',
     headers = [''Content-Length'' \<mapsto> ''abc''], rfile = ''42''\<rparr>"
  let ?e = "Exn ValueError
     (''invalid literal for int() with base 10: '' @ [CHR 0x27] @ ''abc'' @ [CHR 0x27])"
  have a1: "path ?req1 = ''/save''" and a2: "headers ?req1 ''Content-Length'' = None"
    by simp_all
  have b1: "path ?req2 = ''/save''" and b2: "headers ?req2 ''Content-Length'' = Some ''abc''"
    and b0: "command ?req2 = ''POST''"
    by simp_all
  have b3: "int_of_str sample_rt ''abc'' = Inl ?e"
    by (simp add: sample_defs)
  from a2 have ha: "headers ?req1 ''Content-Length'' = None
      \<or> (\<exists>s e. headers ?req1 ''Content-Length'' = Some s \<and> int_of_str sample_rt s = Inl e)"
    by (rule disjI1)
  from b2 b3 have hb: "headers ?req2 ''Content-Length'' = None
      \<or> (\<exists>s e. headers ?req2 ''Content-Length'' = Some s \<and> int_of_str sample_rt s = Inl e)"
    by blast
  from bad_content_length_no_response [OF a1 ha, of ?env empty_world]
  have c1: "status_of (fst (do_POST sample_rt ?env ?req1 empty_world)) = None"
    by simp
  from bad_content_length_no_response [OF b1 hb, of ?env empty_world] b0
  have c2: "status_of (fst (handle_one_request sample_rt ?env ?req2 empty_world)) = None"
    by simp
  from a1 a2 c1 b1 b2 b3 c2 show ?thesis
    by (simp only: simp_thms)
qed

text \<open>
  A declared length that \<^verbatim>\<open>int\<close> accepts and \<^verbatim>\<open>read\<close> does not (below \<open>-1\<close>, from
  \<open>2^63 - 33\<close>, or beyond what the process can allocate) ends the same way: line 15
  raises outside the \<^verbatim>\<open>try\<close>, nothing is sent and nothing is written.
\<close>

lemma unreadable_length_no_response:
  assumes "path req = ''/save''"
    and "py_int rt (headers req ''Content-Length'') = Inr n"
    and "n < - 1 \<or> 2 ^ 63 - 33 \<le> n \<or> (0 \<le> n \<and> int (max_read env) < n)"
  shows "\<exists>e. do_POST rt env req w = (Raised e, w)
           \<and> cls e \<in> {ValueError, OverflowError, MemoryError}"
  using assms by (auto simp: do_POST_def rfile_read_def)

lemma sample_oversize_length:
  "rfile_read (sample_env t f) ''42'' (10 ^ 30)
     = Inl (Exn OverflowError
              (''cannot fit '' @ [CHR 0x27] @ ''int'' @ [CHR 0x27]
               @ '' into an index-sized integer''))"
  by (simp add: rfile_read_def)

section \<open>File names of different seconds differ\<close>

lemma of_char_digit_char:
  assumes "d < 10"
  shows "(of_char (digit_char d) :: nat) - 48 = d"
proof -
  from assms have "d \<in> {0, 1, 2, 3, 4, 5, 6, 7, 8, 9}" by auto
  then show ?thesis by (auto simp: digit_char_def)
qed

lemma nat_of_digits_snoc:
  "nat_of_digits (s @ [c]) = 10 * nat_of_digits s + (of_char c - 48)"
  by (simp add: nat_of_digits_def)

lemma nat_of_digits_str_nat: "nat_of_digits (str_nat n) = n"
proof (induction n rule: str_nat.induct)
  case (1 n)
  show ?case
  proof (cases "n < 10")
    case True
    then show ?thesis
      by (subst str_nat.simps) (simp add: nat_of_digits_def of_char_digit_char)
  next
    case False
    have "nat_of_digits (str_nat (n div 10) @ [digit_char (n mod 10)]) = n"
      unfolding nat_of_digits_snoc "1.IH" [OF False]
      by (simp add: of_char_digit_char)
    with False show ?thesis
      by (subst str_nat.simps) simp
  qed
qed

lemma str_nat_inject: "str_nat a = str_nat b \<longleftrightarrow> a = b"
proof
  assume "str_nat a = str_nat b"
  then have "nat_of_digits (str_nat a) = nat_of_digits (str_nat b)"
    by (rule arg_cong)
  then show "a = b"
    by (simp only: nat_of_digits_str_nat)
qed simp

lemma minus_not_in_str_nat: "CHR ''-'' \<notin> set (str_nat n)"
proof
  assume "CHR ''-'' \<in> set (str_nat n)"
  with set_str_nat [of n] have "CHR ''-'' \<in> set ''0123456789''"
    by (rule subsetD)
  then show False by simp
qed

lemma str_nat_no_sign: "str_nat a \<noteq> CHR ''-'' # s"
  using minus_not_in_str_nat [of a] by (cases "str_nat a = CHR ''-'' # s") simp_all

lemma str_int_inject: "str_int i = str_int j \<longleftrightarrow> i = j"
proof
  assume eq: "str_int i = str_int j"
  show "i = j"
  proof (cases "i < 0"; cases "j < 0")
    assume "i < 0" "j < 0"
    with eq have "nat (- i) = nat (- j)"
      by (simp add: str_int_def str_nat_inject)
    with \<open>i < 0\<close> \<open>j < 0\<close> show ?thesis by simp
  next
    assume "i < 0" "\<not> j < 0"
    with eq str_nat_no_sign [of "nat j" "str_nat (nat (- i))"] show ?thesis
      by (simp add: str_int_def)
  next
    assume "\<not> i < 0" "j < 0"
    with eq str_nat_no_sign [of "nat i" "str_nat (nat (- j))"] show ?thesis
      by (simp add: str_int_def)
  next
    assume "\<not> i < 0" "\<not> j < 0"
    with eq have "nat i = nat j"
      by (simp add: str_int_def str_nat_inject)
    with \<open>\<not> i < 0\<close> \<open>\<not> j < 0\<close> show ?thesis by simp
  qed
qed simp

lemma episode_filename_inject: "episode_filename s = episode_filename t \<longleftrightarrow> s = t"
  by (simp add: episode_filename_def str_int_inject)

section \<open>Which files a request can change\<close>

lemma save_episode_files:
  assumes "p \<noteq> ''episodes/'' @ episode_filename (int_of_float (now env))"
  shows "files (snd (save_episode rt env post_data w)) p = files w p"
proof (cases "decode_utf8 rt post_data")
  case (Inl e)
  then show ?thesis by (simp add: save_episode_decode_error)
next
  case (Inr tx)
  note d = this
  show ?thesis
  proof (cases "json_loads rt tx")
    case (Inl e)
    with d show ?thesis by (simp add: save_episode_json_error)
  next
    case (Inr data)
    with d assms show ?thesis
      by (cases "fault env")
        (simp_all add: save_episode_def write_json_def print_line_def Let_def episode_filepath)
  qed
qed

lemma do_POST_files:
  assumes "p \<noteq> ''episodes/'' @ episode_filename (int_of_float (now env))"
  shows "files (snd (do_POST rt env req w)) p = files w p"
proof (cases "path req = ''/save''")
  case False
  then show ?thesis by (simp add: do_POST_def)
next
  case True
  show ?thesis
  proof (cases "py_int rt (headers req ''Content-Length'')")
    case (Inl e)
    with True show ?thesis by (simp add: do_POST_def)
  next
    case (Inr n)
    note n = this
    show ?thesis
    proof (cases "rfile_read env (rfile req) n")
      case (Inl e)
      with True n show ?thesis by (simp add: do_POST_def)
    next
      case (Inr post_data)
      obtain res w1 where s: "save_episode rt env post_data w = (res, w1)"
        by (cases "save_episode rt env post_data w")
      with save_episode_files [OF assms, of rt post_data w]
      have "files w1 p = files w p" by simp
      with True n Inr s show ?thesis
        by (cases res) (simp_all add: do_POST_def print_line_def)
    qed
  qed
qed

lemma do_GET_world: "snd (do_GET rt env req w) = w"
  by (simp add: do_GET_def split: prod.splits option.splits)

lemma do_HEAD_world: "snd (do_HEAD rt env req w) = w"
  by (simp add: do_HEAD_def)

lemma handle_one_request_world:
  assumes "command req \<noteq> ''POST'' \<or> path req \<noteq> ''/save''"
  shows "snd (handle_one_request rt env req w) = w"
  using assms by (auto simp: handle_one_request_def do_POST_def do_GET_world do_HEAD_world)

lemma handle_one_request_files:
  assumes "p \<noteq> ''episodes/'' @ episode_filename (int_of_float (now env))
           \<or> command req \<noteq> ''POST'' \<or> path req \<noteq> ''/save''"
  shows "files (snd (handle_one_request rt env req w)) p = files w p"
proof (cases "command req \<noteq> ''POST'' \<or> path req \<noteq> ''/save''")
  case True
  then show ?thesis by (simp only: handle_one_request_world)
next
  case False
  with assms have "p \<noteq> ''episodes/'' @ episode_filename (int_of_float (now env))"
    by blast
  from do_POST_files [OF this] False show ?thesis
    by (simp add: handle_one_request_def)
qed

lemma save_episode_keeps_files:
  assumes "files w p \<noteq> None"
  shows "files (snd (save_episode rt env post_data w)) p \<noteq> None"
proof (cases "decode_utf8 rt post_data")
  case (Inl e)
  with assms show ?thesis by (simp add: save_episode_decode_error)
next
  case (Inr tx)
  note d = this
  show ?thesis
  proof (cases "json_loads rt tx")
    case (Inl e)
    with d assms show ?thesis by (simp add: save_episode_json_error)
  next
    case (Inr data)
    with d assms show ?thesis
      by (cases "fault env")
        (simp_all add: save_episode_def write_json_def print_line_def Let_def)
  qed
qed

lemma handle_one_request_keeps_files:
  assumes "files w p \<noteq> None"
  shows "files (snd (handle_one_request rt env req w)) p \<noteq> None"
proof (cases "command req \<noteq> ''POST'' \<or> path req \<noteq> ''/save''")
  case True
  from handle_one_request_world [OF True, of rt env w] assms show ?thesis
    by simp
next
  case False
  then have c: "command req = ''POST''" "path req = ''/save''" by simp_all
  show ?thesis
  proof (cases "py_int rt (headers req ''Content-Length'')")
    case (Inl e)
    with c assms show ?thesis by (simp add: handle_one_request_def do_POST_def)
  next
    case (Inr n)
    note n = this
    show ?thesis
    proof (cases "rfile_read env (rfile req) n")
      case (Inl e)
      with c n assms show ?thesis by (simp add: handle_one_request_def do_POST_def)
    next
      case (Inr post_data)
      obtain res w1 where s: "save_episode rt env post_data w = (res, w1)"
        by (cases "save_episode rt env post_data w")
      with save_episode_keeps_files [OF assms, of rt env post_data]
      have "files w1 p \<noteq> None" by simp
      with c n Inr s show ?thesis
        by (cases res) (simp_all add: handle_one_request_def do_POST_def print_line_def)
    qed
  qed
qed

lemma serve_forever_files:
  assumes "\<forall>(env, req) \<in> set reqs.
      p \<noteq> ''episodes/'' @ episode_filename (int_of_float (now env))
      \<or> command req \<noteq> ''POST'' \<or> path req \<noteq> ''/save''"
  shows "files (fst (snd (serve_forever rt reqs w))) p = files w p"
  using assms
proof (induction reqs arbitrary: w)
  case Nil
  show ?case by simp
next
  case (Cons a reqs)
  obtain env req where a: "a = (env, req)" by (cases a)
  obtain out w1 where h: "handle_one_request rt env req w = (out, w1)"
    by (cases "handle_one_request rt env req w")
  from Cons.prems a have "p \<noteq> ''episodes/'' @ episode_filename (int_of_float (now env))
      \<or> command req \<noteq> ''POST'' \<or> path req \<noteq> ''/save''"
    by simp
  from handle_one_request_files [OF this, of rt w] h have w1: "files w1 p = files w p"
    by simp
  from Cons.prems have "\<forall>(env, req) \<in> set reqs.
      p \<noteq> ''episodes/'' @ episode_filename (int_of_float (now env))
      \<or> command req \<noteq> ''POST'' \<or> path req \<noteq> ''/save''"
    by simp
  from Cons.IH [OF this, of w1] w1
  have rest: "files (fst (snd (serve_forever rt reqs w1))) p = files w p"
    by simp
  obtain outs w2 s where r: "serve_forever rt reqs w1 = (outs, w2, s)"
    by (cases "serve_forever rt reqs w1")
  with rest have w2: "files w2 p = files w p"
    by simp
  show ?case
  proof (cases out)
    case (Responded r')
    with a h r w2 show ?thesis by simp
  next
    case (Raised e)
    with a h r w2 w1 show ?thesis by simp
  qed
qed

section \<open>Other paths and other methods\<close>













section \<open>Two requests in the same second\<close>

lemma int_of_float_samples:
  "int_of_float 1700000000.3 = 1700000000" "int_of_float 1700000000.9 = 1700000000"
  "int_of_float 1700000001.7 = 1700000001"
  by (simp_all add: int_of_float_def)



section \<open>Which requests leave a stored file alone\<close>

text \<open>
  C7, as amended. A stored file is written only by a POST to \<^verbatim>\<open>/save\<close>, and then it
  is the file \<^verbatim>\<open>episodes/episode_<t>.json\<close> of that request's own second \<open>t\<close>; no
  request deletes a file. So the content of \<^verbatim>\<open>episodes/episode_<t>.json\<close> is the
  same after any run of requests each of which is handled in another second, or is no
  POST, or is a POST to another path. (A further POST to \<^verbatim>\<open>/save\<close> in second \<open>t\<close>
  writes the file again: it is not created once only.)
\<close>

theorem episode_file_preserved:
  assumes "\<forall>(env, req) \<in> set reqs.
      int_of_float (now env) \<noteq> t \<or> command req \<noteq> ''POST'' \<or> path req \<noteq> ''/save''"
  shows "files (fst (snd (serve_forever rt reqs w))) (os_path_join EPISODES_DIR (episode_filename t))
       = files w (os_path_join EPISODES_DIR (episode_filename t))
    \<and> (files (snd (handle_one_request rt env' req' v)) p \<noteq> files v p
        \<longrightarrow> command req' = ''POST'' \<and> path req' = ''/save''
            \<and> p = os_path_join EPISODES_DIR (episode_filename (int_of_float (now env'))))
    \<and> (files v p \<noteq> None \<longrightarrow> files (snd (handle_one_request rt env' req' v)) p \<noteq> None)"
proof -
  from assms have "\<forall>(env, req) \<in> set reqs.
      ''episodes/'' @ episode_filename t
        \<noteq> ''episodes/'' @ episode_filename (int_of_float (now env))
      \<or> command req \<noteq> ''POST'' \<or> path req \<noteq> ''/save''"
    by (auto simp: episode_filename_inject)
  from serve_forever_files [OF this]
  have a: "files (fst (snd (serve_forever rt reqs w)))
      (os_path_join EPISODES_DIR (episode_filename t))
       = files w (os_path_join EPISODES_DIR (episode_filename t))"
    by (simp only: episode_filepath)
  have b: "command req' = ''POST'' \<and> path req' = ''/save''
      \<and> p = os_path_join EPISODES_DIR (episode_filename (int_of_float (now env')))"
    if "files (snd (handle_one_request rt env' req' v)) p \<noteq> files v p"
    using that handle_one_request_files [of p env' req' rt v]
    unfolding episode_filepath by blast
  have c: "files (snd (handle_one_request rt env' req' v)) p \<noteq> None" if "files v p \<noteq> None"
    using that by (rule handle_one_request_keeps_files)
  from a b c show ?thesis
    by blast
qed

theorem episode_file_preserved_witness:
  "command (sample_request ''GET'' ''/episodes/episode_1700000000.json'' []) \<noteq> ''POST''
   \<and> path (sample_request ''POST'' ''/foo'' ''7'') \<noteq> ''/save''
   \<and> int_of_float (now (sample_env 1700000001.7 NoFault)) \<noteq> 1700000000
   \<and> files (snd (do_POST sample_rt (sample_env 1700000000.3 NoFault)
               (sample_request ''POST'' ''/save'' ''42'') empty_world))
        ''episodes/episode_1700000000.json'' = Some ''42''
   \<and> files (fst (snd (serve_forever sample_rt
        [(sample_env 1700000000.9 NoFault,
          sample_request ''GET'' ''/episodes/episode_1700000000.json'' []),
         (sample_env 1700000000.9 NoFault, sample_request ''POST'' ''/foo'' ''7''),
         (sample_env 1700000001.7 NoFault, sample_request ''POST'' ''/save'' ''7'')]
        (snd (do_POST sample_rt (sample_env 1700000000.3 NoFault)
               (sample_request ''POST'' ''/save'' ''42'') empty_world)))))
        ''episodes/episode_1700000000.json'' = Some ''42''"
proof -
  let ?e1 = "sample_env 1700000000.3 NoFault"
  let ?r1 = "sample_request ''POST'' ''/save'' ''42''"
  let ?reqs = "[(sample_env 1700000000.9 NoFault,
          sample_request ''GET'' ''/episodes/episode_1700000000.json'' []),
         (sample_env 1700000000.9 NoFault, sample_request ''POST'' ''/foo'' ''7''),
         (sample_env 1700000001.7 NoFault, sample_request ''POST'' ''/save'' ''7'')]"
  have h1: "command (sample_request ''GET'' ''/episodes/episode_1700000000.json'' []) \<noteq> ''POST''"
    and h2: "path (sample_request ''POST'' ''/foo'' ''7'') \<noteq> ''/save''"
    and h3: "int_of_float (now (sample_env 1700000001.7 NoFault)) \<noteq> 1700000000"
    by (simp_all add: sample_request_fields sample_env_fields int_of_float_samples)
  from h1 h2 h3 have h: "\<forall>(env, req) \<in> set ?reqs.
      int_of_float (now env) \<noteq> 1700000000 \<or> command req \<noteq> ''POST'' \<or> path req \<noteq> ''/save''"
    by simp
  have a2: "path ?r1 = ''/save''"
    by (simp add: sample_request_fields)
  note a3 = sample_content_length(1) [of "''POST''" "''/save''"]
  have a4: "rfile_read ?e1 (rfile ?r1) 2 = Inr ''42''"
    by (simp add: sample_request_fields sample_read)
  have a7: "fault ?e1 = NoFault"
    by (simp add: sample_env_fields)
  note first = do_POST_saved [OF a2 a3 a4 sample_parse(1,2) a7, of empty_world]
  have before: "files (snd (do_POST sample_rt ?e1 ?r1 empty_world))
      ''episodes/episode_1700000000.json'' = Some ''42''"
    unfolding first
    by (simp add: sample_env_fields int_of_float_samples sample_filename sample_dump)
  from episode_file_preserved [OF h, of sample_rt "snd (do_POST sample_rt ?e1 ?r1 empty_world)"]
  have "files (fst (snd (serve_forever sample_rt ?reqs
      (snd (do_POST sample_rt ?e1 ?r1 empty_world)))))
      (os_path_join EPISODES_DIR (episode_filename 1700000000))
    = files (snd (do_POST sample_rt ?e1 ?r1 empty_world))
      (os_path_join EPISODES_DIR (episode_filename 1700000000))"
    by (rule conjunct1)
  with before
  have c: "files (fst (snd (serve_forever sample_rt ?reqs
      (snd (do_POST sample_rt ?e1 ?r1 empty_world)))))
      ''episodes/episode_1700000000.json'' = Some ''42''"
    by (simp only: sample_filename sample_filepath)
  from h1 h2 h3 before c show ?thesis
    by (simp only: simp_thms)
qed

text \<open>
  The claim as it stands fails: a second POST in the same second replaces the content of
  the file the first one stored.
\<close>

theorem stored_file_mutated_counterexample:
  "files (snd (do_POST sample_rt (sample_env 1700000000.3 NoFault)
        (sample_request ''POST'' ''/save'' ''42'') empty_world))
      ''episodes/episode_1700000000.json'' = Some ''42''
   \<and> files (snd (do_POST sample_rt (sample_env 1700000000.9 NoFault)
        (sample_request ''POST'' ''/save'' ''7'')
        (snd (do_POST sample_rt (sample_env 1700000000.3 NoFault)
               (sample_request ''POST'' ''/save'' ''42'') empty_world))))
      ''episodes/episode_1700000000.json'' = Some ''7''"
proof -
  let ?e1 = "sample_env 1700000000.3 NoFault"
  let ?e2 = "sample_env 1700000000.9 NoFault"
  let ?r1 = "sample_request ''POST'' ''/save'' ''42''"
  let ?r2 = "sample_request ''POST'' ''/save'' ''7''"
  have a2: "path ?r1 = ''/save''" and b2: "path ?r2 = ''/save''"
    by (simp_all add: sample_request_fields)
  note a3 = sample_content_length(1) [of "''POST''" "''/save''"]
  note b3 = sample_content_length(2) [of "''POST''" "''/save''"]
  have a4: "rfile_read ?e1 (rfile ?r1) 2 = Inr ''42''" and b4: "rfile_read ?e2 (rfile ?r2) 1 = Inr ''7''"
    by (simp_all add: sample_request_fields sample_read)
  have a7: "fault ?e1 = NoFault" and b7: "fault ?e2 = NoFault"
    by (simp_all add: sample_env_fields)
  note first = do_POST_saved [OF a2 a3 a4 sample_parse(1,2) a7, of empty_world]
  note second = do_POST_saved [OF b2 b3 b4 sample_parse(3,4) b7]
  show ?thesis
    unfolding first second
    by (simp add: sample_env_fields int_of_float_samples sample_filename sample_dump)
qed

section \<open>The server keeps serving\<close>

lemma save_episode_raises:
  assumes "raises_only_errors rt" and "save_episode rt env post_data w = (Inl e, w1)"
  shows "is_Exception (cls e)"
proof (cases "decode_utf8 rt post_data")
  case (Inl e')
  with assms(2) have "e' = e" by (simp add: save_episode_decode_error)
  with Inl assms(1) show ?thesis by (auto simp: raises_only_errors_def)
next
  case (Inr tx)
  note d = this
  show ?thesis
  proof (cases "json_loads rt tx")
    case (Inl e')
    with d assms(2) have "e' = e" by (simp add: save_episode_json_error)
    with Inl assms(1) show ?thesis by (auto simp: raises_only_errors_def)
  next
    case (Inr data)
    with d assms(2) show ?thesis
      by (cases "fault env") (auto simp: save_episode_def write_json_def Let_def)
  qed
qed

lemma do_POST_raises:
  assumes "raises_only_errors rt" and "do_POST rt env req w = (Raised e, w1)"
  shows "is_Exception (cls e)"
proof (cases "path req = ''/save''")
  case False
  with assms(2) show ?thesis by (simp add: do_POST_def)
next
  case True
  show ?thesis
  proof (cases "headers req ''Content-Length''")
    case None
    with True assms(2) show ?thesis by (auto simp: do_POST_def py_int_def)
  next
    case (Some s)
    note s = this
    show ?thesis
    proof (cases "int_of_str rt s")
      case (Inl e')
      with True s assms(2) have "e' = e" by (simp add: do_POST_def py_int_def)
      with Inl assms(1) show ?thesis by (auto simp: raises_only_errors_def)
    next
      case (Inr n)
      note n = this
      show ?thesis
      proof (cases "rfile_read env (rfile req) n")
        case (Inl e')
        with True s n assms(2) have "e' = e" by (simp add: do_POST_def py_int_def)
        with Inl show ?thesis by (auto simp: rfile_read_def split: if_splits)
      next
        case (Inr post_data)
        obtain res w2 where r: "save_episode rt env post_data w = (res, w2)"
          by (cases "save_episode rt env post_data w")
        show ?thesis
        proof (cases res)
          case (Inl e')
          with r save_episode_raises [OF assms(1)] have "is_Exception (cls e')" by blast
          with True s n Inr r Inl assms(2) show ?thesis
            by (simp add: do_POST_def py_int_def)
        next
          case (Inr filename)
          with True s n \<open>rfile_read env (rfile req) n = Inr post_data\<close> r assms(2) show ?thesis
            by (simp add: do_POST_def py_int_def)
        qed
      qed
    qed
  qed
qed

lemma handle_one_request_raises:
  assumes "raises_only_errors rt" and "handle_one_request rt env req w = (Raised e, w1)"
  shows "is_Exception (cls e)"
proof -
  consider "command req = ''POST''" | "command req \<noteq> ''POST''" "command req = ''GET''"
    | "command req \<noteq> ''POST''" "command req \<noteq> ''GET''" "command req = ''HEAD''"
    | "command req \<noteq> ''POST''" "command req \<noteq> ''GET''" "command req \<noteq> ''HEAD''"
    by blast
  then show ?thesis
  proof cases
    case 1
    with assms(2) have "do_POST rt env req w = (Raised e, w1)"
      by (simp add: handle_one_request_def)
    with assms(1) show ?thesis by (rule do_POST_raises)
  next
    case 2
    with assms(2) show ?thesis
      by (simp add: handle_one_request_def do_GET_def split: prod.splits option.splits)
  next
    case 3
    with assms(2) show ?thesis
      by (simp add: handle_one_request_def do_HEAD_def)
  next
    case 4
    with assms(2) show ?thesis by (simp add: handle_one_request_def)
  qed
qed

lemma serve_forever_Cons:
  assumes "raises_only_errors rt"
  shows "serve_forever rt ((env, req) # rest) w =
    (case serve_forever rt rest (snd (handle_one_request rt env req w)) of
       (outs, w'', s) \<Rightarrow> (fst (handle_one_request rt env req w) # outs, w'', s))"
proof -
  obtain out w1 where h: "handle_one_request rt env req w = (out, w1)"
    by (cases "handle_one_request rt env req w")
  show ?thesis
  proof (cases out)
    case (Responded r)
    with h show ?thesis by simp
  next
    case (Raised e)
    with h handle_one_request_raises [OF assms] have "is_Exception (cls e)" by blast
    with h Raised show ?thesis by simp
  qed
qed

text \<open>
  C8. With a runtime whose calls raise nothing outside \<^verbatim>\<open>Exception\<close>, no request
  ends the server loop, whatever error its handling meets: after any requests the server
  is still serving, every request has had its outcome, and the requests that follow
  are handled from the world the earlier ones left.
\<close>

theorem errors_do_not_stop_server:
  assumes "raises_only_errors rt"
  shows "snd (snd (serve_forever rt reqs w)) = Serving
    \<and> length (fst (serve_forever rt reqs w)) = length reqs
    \<and> serve_forever rt (reqs @ later) w =
        (case serve_forever rt reqs w of
           (outs, w', s) \<Rightarrow>
             (case serve_forever rt later w' of (outs', w'', s') \<Rightarrow> (outs @ outs', w'', s')))"
proof (induction reqs arbitrary: w)
  case Nil
  show ?case by (simp split: prod.splits)
next
  case (Cons a reqs)
  obtain env req where a: "a = (env, req)" by (cases a)
  let ?w1 = "snd (handle_one_request rt env req w)"
  obtain outs w2 s where r: "serve_forever rt reqs ?w1 = (outs, w2, s)"
    by (cases "serve_forever rt reqs ?w1")
  obtain outs' w3 s' where m: "serve_forever rt later w2 = (outs', w3, s')"
    by (cases "serve_forever rt later w2")
  from Cons.IH [of ?w1] r m
  have "s = Serving" "length outs = length reqs"
    "serve_forever rt (reqs @ later) ?w1 = (outs @ outs', w3, s')"
    by simp_all
  with r m show ?case
    unfolding a append_Cons serve_forever_Cons [OF assms] by simp
qed

lemma sample_raises_only_errors: "raises_only_errors sample_rt"
  by (auto simp: raises_only_errors_def sample_defs split: if_splits)

theorem errors_do_not_stop_server_witness:
  "raises_only_errors sample_rt
   \<and> map status_of (fst (serve_forever sample_rt
        [(sample_env 1700000000.3 NoFault, sample_request ''POST'' ''/save'' ''x''),
         (sample_env 1700000000.3 NoFault,
          \<lparr>command = ''POST'', path = ''/save'', headers = Map.empty, rfile = ''42''\<rparr>),
         (sample_env 1700000000.3 (OpenFails ''[Errno 28] No space left on device''),
          sample_request ''POST'' ''/save'' ''42''),
         (sample_env 1700000000.9 NoFault, sample_request ''POST'' ''/save'' ''7'')]
        empty_world)) = [Some 500, None, Some 500, Some 200]
   \<and> snd (snd (serve_forever sample_rt
        [(sample_env 1700000000.3 NoFault, sample_request ''POST'' ''/save'' ''x''),
         (sample_env 1700000000.3 NoFault,
          \<lparr>command = ''POST'', path = ''/save'', headers = Map.empty, rfile = ''42''\<rparr>),
         (sample_env 1700000000.3 (OpenFails ''[Errno 28] No space left on device''),
          sample_request ''POST'' ''/save'' ''42''),
         (sample_env 1700000000.9 NoFault, sample_request ''POST'' ''/save'' ''7'')]
        empty_world)) = Serving"
proof -
  let ?reqs = "[(sample_env 1700000000.3 NoFault, sample_request ''POST'' ''/save'' ''x''),
         (sample_env 1700000000.3 NoFault,
          \<lparr>command = ''POST'', path = ''/save'', headers = Map.empty, rfile = ''42''\<rparr>),
         (sample_env 1700000000.3 (OpenFails ''[Errno 28] No space left on device''),
          sample_request ''POST'' ''/save'' ''42''),
         (sample_env 1700000000.9 NoFault, sample_request ''POST'' ''/save'' ''7'')]"
  note h = sample_raises_only_errors
  from errors_do_not_stop_server [OF h, of ?reqs empty_world "[]"]
  have c2: "snd (snd (serve_forever sample_rt ?reqs empty_world)) = Serving"
    by (rule conjunct1)
  have l: "str_nat (Suc (Suc 0)) = ''2''" "str_nat (Suc 0) = ''1''"
    by (simp_all add: str_nat.simps digit_char_def)
  have c1: "map status_of (fst (serve_forever sample_rt ?reqs empty_world))
      = [Some 500, None, Some 500, Some 200]"
    by (simp add: handle_one_request_def handler_defs sample_defs l Let_def)
  from h c1 c2 show ?thesis
    by (simp only: simp_thms)
qed

end
